theory Spec2Isabelle
  imports Main
begin

section \<open>JavaScript values used by the time tracker\<close>

text \<open>
  Numbers are modelled as \<^typ>\<open>int\<close>: every number the program handles is a
  millisecond timestamp, a difference or sum of timestamps, or an id counter, and on such
  integers (below \<open>2^53\<close> in magnitude) double arithmetic is exact. A field that may hold
  \<^verbatim>\<open>undefined\<close> is an \<^typ>\<open>int option\<close>; a numeric result that may be
  \<^verbatim>\<open>NaN\<close> is an \<^typ>\<open>int option\<close> too, with \<open>None\<close> for
  \<^verbatim>\<open>NaN\<close>.
\<close>

datatype js_error = TypeError | SyntaxError

text \<open>\<^verbatim>\<open>String(n)\<close> for an integer \<open>n\<close>: its decimal digits, with a minus sign.\<close>

definition digit_char :: "nat \<Rightarrow> char" where
  "digit_char d = ''0123456789'' ! d"

fun decimal :: "nat \<Rightarrow> string" where
  "decimal n = (if n < 10 then [digit_char n] else decimal (n div 10) @ [digit_char (n mod 10)])"

declare decimal.simps [simp del]

definition js_String :: "int \<Rightarrow> string" where
  "js_String n = (if n < 0 then CHR ''-'' # decimal (nat (- n)) else decimal (nat n))"

text \<open>
  The binary \<^verbatim>\<open>+\<close> on two numbers, either of which may be \<^verbatim>\<open>NaN\<close>.
\<close>

fun js_plus :: "int option \<Rightarrow> int option \<Rightarrow> int option" where
  "js_plus (Some p) (Some c) = Some (p + c)"
| "js_plus _ _ = None"

section \<open>Interval\<close>

text \<open>
  \<^verbatim>\<open>class Interval { constructor() { this.startMs; this.endMs; } ... }\<close>
  The constructor leaves both fields \<^verbatim>\<open>undefined\<close>. The reading of
  \<^verbatim>\<open>Date.now()\<close> is an argument of every method that takes one.
\<close>

record Interval =
  startMs :: "int option"
  endMs :: "int option"

record SerializedInterval =
  S_startMs :: "int option"
  S_endMs :: "int option"

definition Interval_new :: Interval where
  "Interval_new = \<lparr>startMs = None, endMs = None\<rparr>"

definition Interval_start :: "int \<Rightarrow> Interval \<Rightarrow> Interval" where
  "Interval_start now i = i\<lparr>startMs := Some now\<rparr>"

definition Interval_stop :: "int \<Rightarrow> Interval \<Rightarrow> Interval" where
  "Interval_stop now i = i\<lparr>endMs := Some now\<rparr>"

text \<open>
  \<^verbatim>\<open>let endMs = this.endMs || Date.now(); return endMs - this.startMs;\<close>
  The operator \<^verbatim>\<open>||\<close> takes its right operand when the left one is falsy:
  \<^verbatim>\<open>undefined\<close> and the number \<open>0\<close> both are. Subtracting
  \<^verbatim>\<open>undefined\<close> gives \<^verbatim>\<open>NaN\<close>.
\<close>

definition Interval_elapsed :: "int \<Rightarrow> Interval \<Rightarrow> int option" where
  "Interval_elapsed now i =
     (let e = (case endMs i of None \<Rightarrow> now | Some e \<Rightarrow> if e = 0 then now else e)
      in case startMs i of None \<Rightarrow> None | Some s \<Rightarrow> Some (e - s))"

definition Interval_serialize :: "Interval \<Rightarrow> SerializedInterval" where
  "Interval_serialize i = \<lparr>S_startMs = startMs i, S_endMs = endMs i\<rparr>"

definition Interval_deserialize :: "SerializedInterval \<Rightarrow> Interval \<Rightarrow> Interval" where
  "Interval_deserialize serialized i =
     i\<lparr>startMs := S_startMs serialized, endMs := S_endMs serialized\<rparr>"

section \<open>Task\<close>

definition RUNNING :: string where
  "RUNNING = ''RUNNING''"

definition PAUSED :: string where
  "PAUSED = ''PAUSED''"

record Task =
  task_id :: int
  name :: string
  intervals :: "Interval list"
  status :: string

record SerializedTask =
  S_id :: int
  S_name :: string
  S_intervals :: "SerializedInterval list"
  S_status :: string

text \<open>
  \<^verbatim>\<open>constructor() { this.id = gid++; this.name = 'Task ' + this.id; ... }\<close>
  The global counter \<^verbatim>\<open>gid\<close> is passed in and returned.
\<close>

definition Task_new :: "int \<Rightarrow> Task \<times> int" where
  "Task_new gid =
     (\<lparr>task_id = gid, name = ''Task '' @ js_String gid, intervals = [], status = PAUSED\<rparr>,
      gid + 1)"

text \<open>
  \<^verbatim>\<open>run() { const interval = new Interval(); this.intervals.push(interval);
  interval.start(); this.status = TaskStatus.RUNNING; }\<close>
\<close>

definition Task_run :: "int \<Rightarrow> Task \<Rightarrow> Task" where
  "Task_run now t =
     t\<lparr>intervals := intervals t @ [Interval_start now Interval_new], status := RUNNING\<rparr>"

text \<open>
  \<^verbatim>\<open>pause() { const interval = this.intervals[this.intervals.length - 1];
  interval.stop(); this.status = TaskStatus.PAUSED; }\<close>
  On an empty list the index is \<open>-1\<close>, the read gives \<^verbatim>\<open>undefined\<close> and the
  call of \<^verbatim>\<open>stop\<close> throws a TypeError before the status is written.
\<close>

definition Task_pause :: "int \<Rightarrow> Task \<Rightarrow> js_error + Task" where
  "Task_pause now t =
     (if intervals t = [] then Inl TypeError
      else let k = length (intervals t) - 1
           in Inr (t\<lparr>intervals := (intervals t)[k := Interval_stop now (intervals t ! k)],
                     status := PAUSED\<rparr>))"

definition Task_toggle :: "int \<Rightarrow> Task \<Rightarrow> js_error + Task" where
  "Task_toggle now t =
     (if status t = PAUSED then Inr (Task_run now t)
      else if status t = RUNNING then Task_pause now t
      else Inr t)"

text \<open>
  \<^verbatim>\<open>this.intervals.map(interval => interval.elapsed()).reduce((p, c) => p + c, 0)\<close>
\<close>

definition Task_elapsed :: "int \<Rightarrow> Task \<Rightarrow> int option" where
  "Task_elapsed now t = foldl js_plus (Some 0) (map (Interval_elapsed now) (intervals t))"

definition Task_serialize :: "Task \<Rightarrow> SerializedTask" where
  "Task_serialize t =
     \<lparr>S_id = task_id t, S_name = name t,
      S_intervals = map Interval_serialize (intervals t), S_status = status t\<rparr>"

text \<open>
  \<^verbatim>\<open>deserialize(serialized) { this.id = serialized.id; this.name = serialized.name;
  serialized.intervals.forEach(serializedInterval => { const interval = new Interval();
  interval.deserialize(serializedInterval); this.intervals.push(interval); });
  this.status = serialized.status; gid = this.id++; }\<close>
  The last statement is a post-increment of the field: the counter receives the old value
  of \<^verbatim>\<open>this.id\<close>, and the field is left one higher.
\<close>

definition Task_deserialize :: "SerializedTask \<Rightarrow> Task \<Rightarrow> int \<Rightarrow> Task \<times> int" where
  "Task_deserialize serialized t gid =
     (let t1 = t\<lparr>task_id := S_id serialized\<rparr>;
          t2 = t1\<lparr>name := S_name serialized\<rparr>;
          t3 = t2\<lparr>intervals :=
                 foldl (\<lambda>ivs serializedInterval.
                          ivs @ [Interval_deserialize serializedInterval Interval_new])
                       (intervals t2) (S_intervals serialized)\<rparr>;
          t4 = t3\<lparr>status := S_status serialized\<rparr>
      in (t4\<lparr>task_id := task_id t4 + 1\<rparr>, task_id t4))"

section \<open>Model\<close>

text \<open>
  Tasks are objects: the Model's array holds references, and \<^verbatim>\<open>indexOf\<close>
  compares references. The store keeps the global counter \<^verbatim>\<open>gid\<close> and the Task
  objects created so far; a reference is the position of its object in \<open>objs\<close>.
\<close>

record store =
  gid :: int
  objs :: "Task list"

record Model =
  tasks :: "nat list"

record SerializedModel =
  S_tasks :: "SerializedTask list"

text \<open>\<^verbatim>\<open>new Task()\<close>: runs the constructor and allocates the object.\<close>

definition new_Task :: "store \<Rightarrow> nat \<times> store" where
  "new_Task st =
     (case Task_new (gid st) of
        (task, g) \<Rightarrow> (length (objs st), st\<lparr>gid := g, objs := objs st @ [task]\<rparr>))"

text \<open>\<^verbatim>\<open>task.deserialize(serializedTask)\<close> on the object behind a reference.\<close>

definition deserialize_at :: "nat \<Rightarrow> SerializedTask \<Rightarrow> store \<Rightarrow> store" where
  "deserialize_at r serializedTask st =
     (case Task_deserialize serializedTask (objs st ! r) (gid st) of
        (task, g) \<Rightarrow> st\<lparr>gid := g, objs := (objs st)[r := task]\<rparr>)"

text \<open>
  \<^verbatim>\<open>addTask() { const task = new Task(); this.tasks.push(task); return task; }\<close>
\<close>

definition Model_addTask :: "Model \<Rightarrow> store \<Rightarrow> nat \<times> Model \<times> store" where
  "Model_addTask m st =
     (case new_Task st of (task, st') \<Rightarrow> (task, m\<lparr>tasks := tasks m @ [task]\<rparr>, st'))"

definition Model_serialize :: "Model \<Rightarrow> store \<Rightarrow> SerializedModel" where
  "Model_serialize m st = \<lparr>S_tasks = map (\<lambda>task. Task_serialize (objs st ! task)) (tasks m)\<rparr>"

subsection \<open>The stored document as \<^verbatim>\<open>JSON.parse\<close> returns it\<close>

text \<open>
  \<^verbatim>\<open>JSON.parse\<close> returns any JSON value, of the shape the source declares or of
  another. An object holds its members in the order of the text, and a name given twice
  has its last value. \<open>JNum\<close> is a number that is an integer, \<open>JNonInt\<close> any other
  number.
\<close>

datatype json =
    JNull
  | JBool bool
  | JNum int
  | JNonInt
  | JStr string
  | JArr "json list"
  | JObj "(string \<times> json) list"

text \<open>
  Reading a property, \<^verbatim>\<open>value.key\<close>, for the names the source reads
  (\<^verbatim>\<open>tasks\<close>, \<^verbatim>\<open>id\<close>, \<^verbatim>\<open>name\<close>, \<^verbatim>\<open>intervals\<close>, \<^verbatim>\<open>status\<close>,
  \<^verbatim>\<open>startMs\<close>, \<^verbatim>\<open>endMs\<close>): on \<^verbatim>\<open>null\<close> the read throws a TypeError; on
  an object it gives the member, or \<^verbatim>\<open>undefined\<close> (here \<open>None\<close>) when there is
  none; a boolean, a number, a string and an array have no property of these names.
\<close>

fun get_prop :: "json \<Rightarrow> string \<Rightarrow> js_error + json option" where
  "get_prop JNull key = Inl TypeError"
| "get_prop (JObj members) key = Inr (map_of (rev members) key)"
| "get_prop _ key = Inr None"

text \<open>
  The call \<^verbatim>\<open>value.forEach(...)\<close>: only an array has the method. On
  \<^verbatim>\<open>undefined\<close> and \<^verbatim>\<open>null\<close> the read of \<^verbatim>\<open>forEach\<close> throws a TypeError,
  and on any other value what is read is not a function, and the call throws a TypeError.
  An array gives its elements to the callback in order.
\<close>

fun forEach_elements :: "json option \<Rightarrow> js_error + json list" where
  "forEach_elements (Some (JArr elements)) = Inr elements"
| "forEach_elements _ = Inl TypeError"

text \<open>
  The values a field of the declared type \<^verbatim>\<open>number\<close>, \<^verbatim>\<open>number\<close> or
  \<^verbatim>\<open>undefined\<close>, and \<^verbatim>\<open>string\<close> can hold: \<open>None\<close> for a value of another type,
  which the records of this theory do not hold.
\<close>

fun number_value :: "json option \<Rightarrow> int option" where
  "number_value (Some (JNum n)) = Some n"
| "number_value _ = None"

fun optional_number_value :: "json option \<Rightarrow> int option option" where
  "optional_number_value None = Some None"
| "optional_number_value (Some (JNum n)) = Some (Some n)"
| "optional_number_value _ = None"

fun string_value :: "json option \<Rightarrow> string option" where
  "string_value (Some (JStr s)) = Some s"
| "string_value _ = None"

text \<open>
  The reads of \<^verbatim>\<open>Interval.deserialize\<close>, \<^verbatim>\<open>serialized.startMs\<close> and
  \<^verbatim>\<open>serialized.endMs\<close>, on a JSON value: \<open>Inl\<close> when a read throws, \<open>Inr None\<close>
  when both reads return and a value read is not of the declared type, and
  \<open>Inr (Some _)\<close> with the \<^verbatim>\<open>SerializedInterval\<close> read otherwise.
\<close>

definition read_SerializedInterval :: "json \<Rightarrow> js_error + SerializedInterval option" where
  "read_SerializedInterval serialized =
     (case get_prop serialized ''startMs'' of
        Inl e \<Rightarrow> Inl e
      | Inr s \<Rightarrow>
          (case get_prop serialized ''endMs'' of
             Inl e \<Rightarrow> Inl e
           | Inr e \<Rightarrow>
               Inr (case optional_number_value s of
                      None \<Rightarrow> None
                    | Some s' \<Rightarrow>
                        (case optional_number_value e of
                           None \<Rightarrow> None
                         | Some e' \<Rightarrow> Some \<lparr>S_startMs = s', S_endMs = e'\<rparr>))))"

text \<open>
  The callback of \<^verbatim>\<open>serialized.intervals.forEach\<close> over the elements: the first
  throw ends the loop.
\<close>

fun read_intervals :: "json list \<Rightarrow> js_error + SerializedInterval list option" where
  "read_intervals [] = Inr (Some [])"
| "read_intervals (serializedInterval # rest) =
     (case read_SerializedInterval serializedInterval of
        Inl e \<Rightarrow> Inl e
      | Inr i \<Rightarrow>
          (case read_intervals rest of
             Inl e \<Rightarrow> Inl e
           | Inr is \<Rightarrow>
               Inr (case i of
                      None \<Rightarrow> None
                    | Some i' \<Rightarrow> (case is of None \<Rightarrow> None | Some is' \<Rightarrow> Some (i' # is')))))"

text \<open>
  The reads of \<^verbatim>\<open>Task.deserialize\<close> on a JSON value, in its order:
  \<^verbatim>\<open>serialized.id\<close>, \<^verbatim>\<open>serialized.name\<close>,
  \<^verbatim>\<open>serialized.intervals.forEach(...)\<close> and \<^verbatim>\<open>serialized.status\<close>. The
  increment \<^verbatim>\<open>this.id++\<close> converts any value to a number and does not throw.
\<close>

definition read_SerializedTask :: "json \<Rightarrow> js_error + SerializedTask option" where
  "read_SerializedTask serialized =
     (case get_prop serialized ''id'' of
        Inl e \<Rightarrow> Inl e
      | Inr i \<Rightarrow>
          (case get_prop serialized ''name'' of
             Inl e \<Rightarrow> Inl e
           | Inr n \<Rightarrow>
               (case get_prop serialized ''intervals'' of
                  Inl e \<Rightarrow> Inl e
                | Inr ivs \<Rightarrow>
                    (case forEach_elements ivs of
                       Inl e \<Rightarrow> Inl e
                     | Inr elements \<Rightarrow>
                         (case read_intervals elements of
                            Inl e \<Rightarrow> Inl e
                          | Inr is \<Rightarrow>
                              (case get_prop serialized ''status'' of
                                 Inl e \<Rightarrow> Inl e
                               | Inr s \<Rightarrow>
                                   Inr (case (number_value i, string_value n, is, string_value s) of
                                          (Some i', Some n', Some is', Some s') \<Rightarrow>
                                            Some \<lparr>S_id = i', S_name = n', S_intervals = is',
                                                  S_status = s'\<rparr>
                                        | _ \<Rightarrow> None)))))))"

text \<open>
  The callback of \<^verbatim>\<open>Model.deserialize\<close> for a serialized task of the declared type:
  \<^verbatim>\<open>const task = new Task(); task.deserialize(serializedTask);
  this.tasks.push(task);\<close>
\<close>

definition deserialize_task :: "SerializedTask \<Rightarrow> Model \<times> store \<Rightarrow> Model \<times> store" where
  "deserialize_task serializedTask ms =
     (case ms of
        (m, st) \<Rightarrow>
          (case new_Task st of
             (task, st1) \<Rightarrow>
               (m\<lparr>tasks := tasks m @ [task]\<rparr>, deserialize_at task serializedTask st1)))"

text \<open>
  The loop of \<^verbatim>\<open>Model.deserialize\<close> over the elements of
  \<^verbatim>\<open>serialized.tasks\<close>. Nothing catches a throw, so the first one ends the loop and
  no state is returned. The state is \<open>None\<close> from the first task on that was read
  without a throw but with a value not of the declared type: the Model then holds Tasks
  that the record \<^typ>\<open>Task\<close> does not describe, and the loop goes on, throwing where it
  would.
\<close>

fun deserialize_tasks ::
  "json list \<Rightarrow> (Model \<times> store) option \<Rightarrow> js_error + (Model \<times> store) option" where
  "deserialize_tasks [] ms = Inr ms"
| "deserialize_tasks (serializedTask # rest) ms =
     (case read_SerializedTask serializedTask of
        Inl e \<Rightarrow> Inl e
      | Inr t \<Rightarrow>
          deserialize_tasks rest
            (case ms of
               None \<Rightarrow> None
             | Some ms' \<Rightarrow> (case t of None \<Rightarrow> None | Some t' \<Rightarrow> Some (deserialize_task t' ms'))))"

text \<open>
  \<^verbatim>\<open>deserialize(serialized) { serialized.tasks.forEach((serializedTask) => {
  const task = new Task(); task.deserialize(serializedTask); this.tasks.push(task); }); }\<close>
  on the value \<^verbatim>\<open>JSON.parse\<close> returned.
\<close>

definition Model_deserialize ::
  "json \<Rightarrow> Model \<Rightarrow> store \<Rightarrow> js_error + (Model \<times> store) option" where
  "Model_deserialize serialized m st =
     (case get_prop serialized ''tasks'' of
        Inl e \<Rightarrow> Inl e
      | Inr ts \<Rightarrow>
          (case forEach_elements ts of
             Inl e \<Rightarrow> Inl e
           | Inr elements \<Rightarrow> deserialize_tasks elements (Some (m, st))))"

text \<open>
  \<^verbatim>\<open>load() { let serialized = localStorage.getItem('timetracker');
  if (serialized) { this.deserialize(JSON.parse(serialized)); } }\<close>
  \<^verbatim>\<open>getItem\<close> returns \<^verbatim>\<open>null\<close> (here \<open>None\<close>) when the key is absent, and
  the stored text otherwise; \<^verbatim>\<open>null\<close> and the empty text are falsy.
  \<^verbatim>\<open>JSON.parse\<close> is the platform's: it is an argument of the model, a function that
  throws a SyntaxError or returns a JSON value. Nothing in \<^verbatim>\<open>load\<close> or in the
  constructor catches what is thrown.
\<close>

definition Model_load ::
  "(string \<Rightarrow> js_error + json) \<Rightarrow> string option \<Rightarrow> Model \<Rightarrow> store
     \<Rightarrow> js_error + (Model \<times> store) option" where
  "Model_load JSON_parse item m st =
     (case item of
        None \<Rightarrow> Inr (Some (m, st))
      | Some serialized \<Rightarrow>
          if serialized = [] then Inr (Some (m, st))
          else (case JSON_parse serialized of
                  Inl e \<Rightarrow> Inl e
                | Inr document \<Rightarrow> Model_deserialize document m st))"

text \<open>\<^verbatim>\<open>constructor() { this.tasks = []; this.load(); ... }\<close>\<close>

definition Model_new ::
  "(string \<Rightarrow> js_error + json) \<Rightarrow> string option \<Rightarrow> store
     \<Rightarrow> js_error + (Model \<times> store) option" where
  "Model_new JSON_parse item st = Model_load JSON_parse item \<lparr>tasks = []\<rparr> st"

text \<open>
  The JSON value of a document of the declared type, as \<^verbatim>\<open>JSON.parse\<close> returns it
  for the text \<^verbatim>\<open>JSON.stringify\<close> wrote in \<^verbatim>\<open>persist()\<close>: a property that is
  \<^verbatim>\<open>undefined\<close> is left out.
\<close>

definition json_of_SerializedInterval :: "SerializedInterval \<Rightarrow> json" where
  "json_of_SerializedInterval i =
     JObj ((case S_startMs i of None \<Rightarrow> [] | Some s \<Rightarrow> [(''startMs'', JNum s)]) @
           (case S_endMs i of None \<Rightarrow> [] | Some e \<Rightarrow> [(''endMs'', JNum e)]))"

definition json_of_SerializedTask :: "SerializedTask \<Rightarrow> json" where
  "json_of_SerializedTask t =
     JObj [(''id'', JNum (S_id t)), (''name'', JStr (S_name t)),
           (''intervals'', JArr (map json_of_SerializedInterval (S_intervals t))),
           (''status'', JStr (S_status t))]"

definition json_of_SerializedModel :: "SerializedModel \<Rightarrow> json" where
  "json_of_SerializedModel d = JObj [(''tasks'', JArr (map json_of_SerializedTask (S_tasks d)))]"

text \<open>
  What \<^verbatim>\<open>Model.deserialize\<close> does with a document of the declared type: the callback
  on each serialized task in turn.
\<close>

definition deserialize_document :: "SerializedModel \<Rightarrow> Model \<Rightarrow> store \<Rightarrow> Model \<times> store" where
  "deserialize_document d m st = foldl (\<lambda>ms t. deserialize_task t ms) (m, st) (S_tasks d)"

subsection \<open>The listener for \<^verbatim>\<open>delete_task\<close>\<close>

text \<open>
  \<^verbatim>\<open>Array.prototype.indexOf\<close>: the first position holding the element, or \<open>-1\<close>.
\<close>

fun indexOf :: "'a list \<Rightarrow> 'a \<Rightarrow> int" where
  "indexOf [] x = - 1"
| "indexOf (y # ys) x =
     (if y = x then 0 else (let k = indexOf ys x in if k < 0 then - 1 else k + 1))"

text \<open>
  \<^verbatim>\<open>Array.prototype.splice(start, deleteCount)\<close> with no items to insert: a negative
  \<open>start\<close> counts from the end of the array, and both arguments are clamped to the array.
\<close>

definition splice :: "'a list \<Rightarrow> int \<Rightarrow> int \<Rightarrow> 'a list" where
  "splice xs start deleteCount =
     (let len = int (length xs);
          actualStart = (if start < 0 then max (len + start) 0 else min start len);
          actualDeleteCount = min (max deleteCount 0) (len - actualStart)
      in take (nat actualStart) xs @ drop (nat (actualStart + actualDeleteCount)) xs)"

text \<open>
  \<^verbatim>\<open>(task) => { this.tasks.splice(this.tasks.indexOf(task), 1); }\<close>
\<close>

definition Model_delete_task :: "Model \<Rightarrow> nat \<Rightarrow> Model" where
  "Model_delete_task m task = m\<lparr>tasks := splice (tasks m) (indexOf (tasks m) task) 1\<rparr>"

section \<open>Formatting a duration\<close>

text \<open>
  The remainder operator \<^verbatim>\<open>%\<close> truncates towards zero: the result has the sign of
  the dividend.
\<close>

definition js_rem :: "int \<Rightarrow> int \<Rightarrow> int" where
  "js_rem a b = sgn a * (\<bar>a\<bar> mod \<bar>b\<bar>)"

text \<open>
  \<^verbatim>\<open>let s = Math.floor(durationMs / 1000); let m = Math.floor(s / 60);
  let h = Math.floor(m / 60); s %= 60; m %= 60;
  s = s < 10 ? '0' + s : String(s); m = m < 10 ? '0' + m : String(m);
  return h + ':' + m + ':' + s;\<close>
  \<^verbatim>\<open>Math.floor\<close> of a quotient of integers is the floored division \<open>div\<close>.
\<close>

definition formatDuration :: "int \<Rightarrow> string" where
  "formatDuration durationMs =
     (let s = durationMs div 1000;
          m = s div 60;
          h = m div 60;
          s = js_rem s 60;
          m = js_rem m 60;
          s = (if s < 10 then ''0'' @ js_String s else js_String s);
          m = (if m < 10 then ''0'' @ js_String m else js_String m)
      in js_String h @ '':'' @ m @ '':'' @ s)"

section \<open>Sequences of calls\<close>

text \<open>
  A call of \<^verbatim>\<open>run()\<close> or \<^verbatim>\<open>pause()\<close>, with the reading of the clock it makes.
  A sequence of calls stops at the first one that throws.
\<close>

datatype call = Run int | Pause int

fun clock :: "call \<Rightarrow> int" where
  "clock (Run now) = now"
| "clock (Pause now) = now"

fun do_call :: "call \<Rightarrow> Task \<Rightarrow> js_error + Task" where
  "do_call (Run now) t = Inr (Task_run now t)"
| "do_call (Pause now) t = Task_pause now t"

fun calls :: "call list \<Rightarrow> Task \<Rightarrow> js_error + Task" where
  "calls [] t = Inr t"
| "calls (c # cs) t = (case do_call c t of Inl e \<Rightarrow> Inl e | Inr t' \<Rightarrow> calls cs t')"

text \<open>A sequence of \<^verbatim>\<open>toggle()\<close> calls, given by the clock readings.\<close>

fun toggles :: "int list \<Rightarrow> Task \<Rightarrow> js_error + Task" where
  "toggles [] t = Inr t"
| "toggles (now # nows) t =
     (case Task_toggle now t of Inl e \<Rightarrow> Inl e | Inr t' \<Rightarrow> toggles nows t')"

section \<open>Notions the properties are stated with\<close>

text \<open>An interval is closed when its \<^verbatim>\<open>endMs\<close> is set, and open otherwise.\<close>

definition closed :: "Interval \<Rightarrow> bool" where
  "closed i = (endMs i \<noteq> None)"

text \<open>\<^verbatim>\<open>endMs - startMs\<close> of a closed interval; \<open>0\<close> for any other.\<close>

definition duration :: "Interval \<Rightarrow> int" where
  "duration i =
     (case endMs i of
        None \<Rightarrow> 0
      | Some e \<Rightarrow> (case startMs i of None \<Rightarrow> 0 | Some s \<Rightarrow> e - s))"

text \<open>\<^verbatim>\<open>now - startMs\<close> of a started interval.\<close>

definition since_start :: "int \<Rightarrow> Interval \<Rightarrow> int" where
  "since_start now i = (case startMs i of None \<Rightarrow> 0 | Some s \<Rightarrow> now - s)"

definition closed_sum :: "Interval list \<Rightarrow> int" where
  "closed_sum ivs = sum_list (map duration (filter closed ivs))"

definition open_sum :: "int \<Rightarrow> Interval list \<Rightarrow> int" where
  "open_sum now ivs = sum_list (map (since_start now) (filter (\<lambda>i. \<not> closed i) ivs))"

text \<open>
  The elapsed time as the specification words it: the closed intervals' durations, plus
  the time since the start of the last interval if that one is open.
\<close>

definition claimed_elapsed :: "int \<Rightarrow> Interval list \<Rightarrow> int" where
  "claimed_elapsed now ivs =
     closed_sum ivs +
     (if ivs \<noteq> [] \<and> \<not> closed (last ivs) then since_start now (last ivs) else 0)"

text \<open>The invariant of a Task: no interval but the last is open.\<close>

definition only_trailing_open :: "Task \<Rightarrow> bool" where
  "only_trailing_open t = list_all closed (butlast (intervals t))"

definition trailing_open :: "Task \<Rightarrow> bool" where
  "trailing_open t = (intervals t \<noteq> [] \<and> \<not> closed (last (intervals t)))"

text \<open>
  The format as the specification words it, for a duration that is a natural number:
  hours unpadded, minutes and seconds as two digits each.
\<close>

definition two_digits :: "nat \<Rightarrow> string" where
  "two_digits n = [digit_char (n div 10), digit_char (n mod 10)]"

definition H_MM_SS :: "nat \<Rightarrow> string" where
  "H_MM_SS ms =
     (let s = ms div 1000; m = s div 60; h = m div 60
      in decimal h @ '':'' @ two_digits (m mod 60) @ '':'' @ two_digits (s mod 60))"




text \<open>
  An interval the accounting can sum: it was started, and its \<^verbatim>\<open>endMs\<close> is not the
  number \<open>0\<close>.
\<close>

definition accountable :: "Interval \<Rightarrow> bool" where
  "accountable i = (startMs i \<noteq> None \<and> endMs i \<noteq> Some 0)"

text \<open>
  What \<^verbatim>\<open>toggle()\<close> maintains: a paused Task has closed intervals only, and any other
  Task is running with its last interval the only open one.
\<close>

definition toggle_inv :: "Task \<Rightarrow> bool" where
  "toggle_inv t =
     (only_trailing_open t \<and>
      (if status t = PAUSED then list_all closed (intervals t)
       else status t = RUNNING \<and> trailing_open t))"

section \<open>Decimal digits\<close>

lemma decimal_small: "n < 10 \<Longrightarrow> decimal n = [digit_char n]"
  by (simp add: decimal.simps)

lemma decimal_two: "10 \<le> n \<Longrightarrow> n < 100 \<Longrightarrow> decimal n = two_digits n"
  by (subst decimal.simps) (simp add: two_digits_def decimal_small)

lemma digit_char_0: "digit_char 0 = CHR ''0''"
  by (simp add: digit_char_def)

lemma decimal_nonempty: "decimal n \<noteq> []"
  by (subst decimal.simps) simp

lemma digit_char_nonzero: "0 < d \<Longrightarrow> d < 10 \<Longrightarrow> digit_char d \<noteq> CHR ''0''"
proof -
  assume "0 < d" "d < 10"
  then have "d \<in> {1, 2, 3, 4, 5, 6, 7, 8, 9}" by auto
  then show ?thesis by (auto simp: digit_char_def)
qed

lemma decimal_no_leading_zero: "0 < n \<Longrightarrow> hd (decimal n) \<noteq> CHR ''0''"
proof (induction n rule: decimal.induct)
  case (1 n)
  show ?case
  proof (cases "n < 10")
    case True
    with "1.prems" show ?thesis by (simp add: decimal_small digit_char_nonzero)
  next
    case False
    then have "0 < n div 10" by simp
    with False "1.IH" have "hd (decimal (n div 10)) \<noteq> CHR ''0''" by simp
    with False show ?thesis
      by (subst decimal.simps) (simp add: decimal_nonempty)
  qed
qed

lemma padded:
  "0 \<le> x \<Longrightarrow> x < 60 \<Longrightarrow>
     (if x < 10 then ''0'' @ js_String x else js_String x) = two_digits (nat x)"
proof (cases "x < 10")
  case True
  assume "0 \<le> x"
  with True have "nat x < 10" by simp
  then have "nat x div 10 = 0" "nat x mod 10 = nat x" by simp_all
  with True \<open>0 \<le> x\<close> \<open>nat x < 10\<close> show ?thesis
    by (simp add: js_String_def decimal_small two_digits_def digit_char_0)
next
  case False
  assume "0 \<le> x" "x < 60"
  with False have "10 \<le> nat x" "nat x < 100" by simp_all
  with False \<open>0 \<le> x\<close> show ?thesis
    by (simp add: js_String_def decimal_two)
qed

lemma js_rem_nonneg: "0 \<le> a \<Longrightarrow> 0 < b \<Longrightarrow> js_rem a b = a mod b"
  by (cases "a = 0") (simp_all add: js_rem_def)

section \<open>Formatting: the source against the specification's wording\<close>

lemma formatDuration_nonneg:
  assumes "0 \<le> d"
  shows "formatDuration d = H_MM_SS (nat d)"
proof -
  let ?s = "d div 1000"
  let ?m = "?s div 60"
  let ?h = "?m div 60"
  from assms have s0: "0 \<le> ?s" by (simp add: pos_imp_zdiv_nonneg_iff)
  then have m0: "0 \<le> ?m" by (simp add: pos_imp_zdiv_nonneg_iff)
  then have h0: "0 \<le> ?h" by (simp add: pos_imp_zdiv_nonneg_iff)
  have ns: "nat d div 1000 = nat ?s" using assms by (simp add: nat_div_distrib)
  have nm: "nat ?s div 60 = nat ?m" using s0 by (simp add: nat_div_distrib)
  have nh: "nat ?m div 60 = nat ?h" using m0 by (simp add: nat_div_distrib)
  have rs: "nat ?s mod 60 = nat (?s mod 60)" using s0 by (simp add: nat_mod_distrib)
  have rm: "nat ?m mod 60 = nat (?m mod 60)" using m0 by (simp add: nat_mod_distrib)
  have ps: "(if ?s mod 60 < 10 then ''0'' @ js_String (?s mod 60) else js_String (?s mod 60))
      = two_digits (nat (?s mod 60))"
    by (rule padded) simp_all
  have pm: "(if ?m mod 60 < 10 then ''0'' @ js_String (?m mod 60) else js_String (?m mod 60))
      = two_digits (nat (?m mod 60))"
    by (rule padded) simp_all
  have js: "js_rem ?s 60 = ?s mod 60" using s0 by (simp add: js_rem_nonneg)
  have jm: "js_rem ?m 60 = ?m mod 60" using m0 by (simp add: js_rem_nonneg)
  have "formatDuration d =
      js_String ?h @ '':'' @ two_digits (nat (?m mod 60)) @ '':'' @ two_digits (nat (?s mod 60))"
    unfolding formatDuration_def Let_def js jm ps pm by (rule refl)
  moreover have "js_String ?h = decimal (nat ?h)" using h0 by (simp add: js_String_def)
  ultimately show ?thesis
    unfolding H_MM_SS_def Let_def ns nm nh rs rm by simp
qed

lemma H_MM_SS_unpadded: "3600000 \<le> ms \<Longrightarrow> hd (H_MM_SS ms) \<noteq> CHR ''0''"
proof -
  assume "3600000 \<le> ms"
  then have "0 < ms div 1000 div 60 div 60" by (simp add: div_mult2_eq [symmetric])
  then have "hd (decimal (ms div 1000 div 60 div 60)) \<noteq> CHR ''0''"
    by (rule decimal_no_leading_zero)
  then show ?thesis by (simp add: H_MM_SS_def Let_def decimal_nonempty)
qed

lemma formatDuration_examples:
  "formatDuration 0 = ''0:00:00''"
  "formatDuration 61000 = ''0:01:01''"
  "formatDuration 3661000 = ''1:01:01''"
  by code_simp+

lemma formatDuration_day: "formatDuration 86399000 = ''23:59:59''"
  by code_simp

section \<open>Reading the stored document\<close>

lemma get_prop_throws: "get_prop v key = Inl e \<longleftrightarrow> v = JNull \<and> e = TypeError"
  by (cases v) auto


lemma forEach_elements_cases:
  "forEach_elements p = (case p of Some (JArr xs) \<Rightarrow> Inr xs | _ \<Rightarrow> Inl TypeError)"
  by (cases p rule: forEach_elements.cases) auto







lemma read_json_of_SerializedInterval:
  "read_SerializedInterval (json_of_SerializedInterval i) = Inr (Some i)"
  by (cases i; cases "S_startMs i"; cases "S_endMs i")
    (simp_all add: read_SerializedInterval_def json_of_SerializedInterval_def)

lemma read_json_of_intervals:
  "read_intervals (map json_of_SerializedInterval is) = Inr (Some is)"
  by (induction "is") (simp_all add: read_json_of_SerializedInterval)

lemma read_json_of_SerializedTask:
  "read_SerializedTask (json_of_SerializedTask t) = Inr (Some t)"
  by (cases t)
    (simp add: read_SerializedTask_def json_of_SerializedTask_def read_json_of_intervals)

lemma deserialize_json_of_tasks:
  "deserialize_tasks (map json_of_SerializedTask ts) (Some ms) =
     Inr (Some (foldl (\<lambda>ms t. deserialize_task t ms) ms ts))"
  by (induction ts arbitrary: ms) (simp_all add: read_json_of_SerializedTask)

lemma Model_deserialize_json_of:
  "Model_deserialize (json_of_SerializedModel d) m st = Inr (Some (deserialize_document d m st))"
  by (simp add: Model_deserialize_def json_of_SerializedModel_def deserialize_document_def
        deserialize_json_of_tasks)



section \<open>Serialization and the id counter\<close>

lemma foldl_push: "foldl (\<lambda>ivs x. ivs @ [f x]) acc xs = acc @ map f xs"
  by (induction xs arbitrary: acc) simp_all

lemma Interval_round_trip: "Interval_deserialize (Interval_serialize i) Interval_new = i"
  by (simp add: Interval_deserialize_def Interval_serialize_def Interval_new_def)

lemma intervals_round_trip:
  "map ((\<lambda>x. Interval_deserialize x Interval_new) \<circ> Interval_serialize) ivs = ivs"
  by (induction ivs) (simp_all add: Interval_round_trip)

text \<open>
  C1. Serializing a Task and deserializing the result into a fresh Task should give back
  the same id, name, status and interval list. The source gives back the name, the status
  and the intervals (open ones included), but the id is one higher than the serialized
  one, for every Task: the statement \<^verbatim>\<open>gid = this.id++\<close> increments the field it
  has just restored. The counter is left at the serialized id.
\<close>

theorem round_trip_id_off_by_one:
  "Task_deserialize (Task_serialize t) (fst (Task_new g)) g' =
     (t\<lparr>task_id := task_id t + 1\<rparr>, task_id t)"
  by (cases t)
    (simp add: Task_deserialize_def Task_serialize_def Task_new_def Let_def foldl_push
       intervals_round_trip)

lemma round_trip_example:
  "fst (Task_deserialize
          (Task_serialize \<lparr>task_id = 0, name = ''Task 0'', intervals = [], status = PAUSED\<rparr>)
          (fst (Task_new 1)) 2) =
     \<lparr>task_id = 1, name = ''Task 0'', intervals = [], status = PAUSED\<rparr>"
  by (simp add: Task_deserialize_def Task_serialize_def Task_new_def Let_def)

text \<open>
  C2. Deserializing a task with id \<open>K\<close> should advance the counter to
  \<open>max(counter, K + 1)\<close>, so that the next \<^verbatim>\<open>addTask()\<close> creates an id above \<open>K\<close>.
  In the source the counter becomes \<open>K\<close> itself, whatever it was, and the Task that the
  next \<^verbatim>\<open>addTask()\<close> creates has the id \<open>K\<close>.
\<close>

theorem addTask_after_deserialize:
  "gid (deserialize_at r serialized st) = S_id serialized \<and>
   gid (deserialize_at r serialized st) < max (gid st) (S_id serialized + 1) \<and>
   (case Model_addTask m (deserialize_at r serialized st) of
      (task, m', st') \<Rightarrow>
        task_id (objs st' ! task) = S_id serialized \<and> gid st' = S_id serialized + 1)"
  by (simp add: deserialize_at_def Task_deserialize_def Let_def Model_addTask_def new_Task_def
        Task_new_def nth_append)

text \<open>
  A reload of two tasks saved with the ids \<open>0\<close> and \<open>1\<close>: they come back with the ids
  \<open>1\<close> and \<open>2\<close>, and the counter stands at \<open>1\<close>, the id of the first of them.
\<close>

lemma reload_collision:
  "Model_new
     (\<lambda>text. Inr (json_of_SerializedModel \<lparr>S_tasks =
        [\<lparr>S_id = 0, S_name = ''Task 0'', S_intervals = [], S_status = PAUSED\<rparr>,
         \<lparr>S_id = 1, S_name = ''Task 1'', S_intervals = [], S_status = PAUSED\<rparr>]\<rparr>))
     (Some ''doc'') \<lparr>gid = 0, objs = []\<rparr> =
   Inr (Some (\<lparr>tasks = [0, 1]\<rparr>,
        \<lparr>gid = 1,
         objs = [\<lparr>task_id = 1, name = ''Task 0'', intervals = [], status = PAUSED\<rparr>,
                 \<lparr>task_id = 2, name = ''Task 1'', intervals = [], status = PAUSED\<rparr>]\<rparr>))"
  by (simp add: Model_new_def Model_load_def Model_deserialize_json_of deserialize_document_def
        deserialize_task_def new_Task_def Task_new_def
        deserialize_at_def Task_deserialize_def Let_def)

section \<open>Elapsed time\<close>

lemma Interval_elapsed_accountable:
  "accountable i \<Longrightarrow>
     Interval_elapsed now i = Some (if closed i then duration i else since_start now i)"
  by (auto simp: accountable_def Interval_elapsed_def closed_def duration_def since_start_def
        split: option.splits)

lemma foldl_elapsed:
  "list_all accountable ivs \<Longrightarrow>
     foldl js_plus (Some a) (map (Interval_elapsed now) ivs) =
       Some (a + closed_sum ivs + open_sum now ivs)"
proof (induction ivs arbitrary: a)
  case Nil
  show ?case by (simp add: closed_sum_def open_sum_def)
next
  case (Cons i ivs)
  from Cons.prems have i: "accountable i" and rest: "list_all accountable ivs" by simp_all
  show ?case
    using Cons.IH [OF rest] Interval_elapsed_accountable [OF i]
    by (simp add: closed_sum_def open_sum_def)
qed

lemma Task_elapsed_accountable:
  "list_all accountable (intervals t) \<Longrightarrow>
     Task_elapsed now t = Some (closed_sum (intervals t) + open_sum now (intervals t))"
  by (simp add: Task_elapsed_def foldl_elapsed)

lemma open_sum_trailing:
  "list_all closed (butlast ivs) \<Longrightarrow>
     open_sum now ivs =
       (if ivs \<noteq> [] \<and> \<not> closed (last ivs) then since_start now (last ivs) else 0)"
proof (induction ivs)
  case Nil
  show ?case by (simp add: open_sum_def)
next
  case (Cons i ivs)
  then show ?case by (cases "ivs = []") (simp_all add: open_sum_def)
qed

lemma Task_run_accountable:
  "now \<noteq> 0 \<Longrightarrow> list_all accountable (intervals t) \<Longrightarrow>
     list_all accountable (intervals (Task_run now t))"
  by (simp add: Task_run_def Interval_start_def Interval_new_def accountable_def)

lemma list_all_update: "list_all P xs \<Longrightarrow> P x \<Longrightarrow> list_all P (xs[k := x])"
  by (induction xs arbitrary: k) (auto split: nat.splits)

lemma Task_pause_accountable:
  assumes "now \<noteq> 0" "list_all accountable (intervals t)" "Task_pause now t = Inr t'"
  shows "list_all accountable (intervals t')"
proof -
  from assms(3) have ne: "intervals t \<noteq> []"
    by (auto simp: Task_pause_def split: if_splits)
  let ?k = "length (intervals t) - 1"
  from ne have "?k < length (intervals t)" by simp
  with assms(2) have "accountable (intervals t ! ?k)" by (simp add: list_all_length)
  with assms(1) have "accountable (Interval_stop now (intervals t ! ?k))"
    by (simp add: accountable_def Interval_stop_def)
  with assms(2)
  have "list_all accountable ((intervals t)[?k := Interval_stop now (intervals t ! ?k)])"
    by (rule list_all_update)
  with assms(3) ne show ?thesis by (auto simp: Task_pause_def Let_def)
qed

lemma calls_accountable:
  "list_all (\<lambda>c. clock c \<noteq> 0) cs \<Longrightarrow> list_all accountable (intervals t) \<Longrightarrow>
     calls cs t = Inr t' \<Longrightarrow> list_all accountable (intervals t')"
proof (induction cs arbitrary: t)
  case Nil
  then show ?case by simp
next
  case (Cons c cs)
  from Cons.prems(3) obtain t1 where t1: "do_call c t = Inr t1" and rest: "calls cs t1 = Inr t'"
    by (auto split: sum.splits)
  from Cons.prems(1) have c0: "clock c \<noteq> 0" and cs0: "list_all (\<lambda>c. clock c \<noteq> 0) cs"
    by simp_all
  have "list_all accountable (intervals t1)"
  proof (cases c)
    case (Run now)
    with t1 c0 Cons.prems(2) show ?thesis using Task_run_accountable [of now t] by auto
  next
    case (Pause now)
    with t1 c0 Cons.prems(2) show ?thesis using Task_pause_accountable [of now t t1] by auto
  qed
  then show ?case using cs0 rest Cons.IH by blast
qed

lemma calls_example:
  "calls [Run 1, Pause 4, Run 6, Run 7] (fst (Task_new 0)) =
     Inr \<lparr>task_id = 0, name = ''Task 0'',
          intervals = [\<lparr>startMs = Some 1, endMs = Some 4\<rparr>, \<lparr>startMs = Some 6, endMs = None\<rparr>,
                       \<lparr>startMs = Some 7, endMs = None\<rparr>],
          status = RUNNING\<rparr>"
  by (simp add: Task_new_def Task_run_def Task_pause_def Interval_new_def Interval_start_def
        Interval_stop_def js_String_def decimal.simps digit_char_def)

text \<open>
  C3. For every Task produced from a fresh Task by a sequence of
  \<^verbatim>\<open>run()\<close> and \<^verbatim>\<open>pause()\<close> calls none of which throws, every clock reading being
  non-zero, \<^verbatim>\<open>elapsed()\<close> at time \<open>now\<close> is the sum over the closed intervals of
  \<open>endMs - startMs\<close> plus the sum over all open intervals, not only the last, of
  \<open>now - startMs\<close>. When no interval but the last is open, that is the formula of the
  specification.
\<close>

theorem elapsed_after_calls:
  assumes "calls cs (fst (Task_new g)) = Inr t"
    and "list_all (\<lambda>c. clock c \<noteq> 0) cs"
  shows "Task_elapsed now t = Some (closed_sum (intervals t) + open_sum now (intervals t)) \<and>
         (only_trailing_open t \<longrightarrow>
            Task_elapsed now t = Some (claimed_elapsed now (intervals t)))"
proof -
  have "list_all accountable (intervals (fst (Task_new g)))" by (simp add: Task_new_def)
  with assms have acc: "list_all accountable (intervals t)" by (metis calls_accountable)
  then have e: "Task_elapsed now t = Some (closed_sum (intervals t) + open_sum now (intervals t))"
    by (rule Task_elapsed_accountable)
  moreover have "only_trailing_open t \<Longrightarrow>
      Task_elapsed now t = Some (claimed_elapsed now (intervals t))"
    using e open_sum_trailing [of "intervals t" now]
    by (simp add: only_trailing_open_def claimed_elapsed_def)
  ultimately show ?thesis by blast
qed

theorem elapsed_after_calls_witness:
  "calls [Run 1, Pause 4, Run 6, Run 7] (fst (Task_new 0)) =
     Inr \<lparr>task_id = 0, name = ''Task 0'',
          intervals = [\<lparr>startMs = Some 1, endMs = Some 4\<rparr>, \<lparr>startMs = Some 6, endMs = None\<rparr>,
                       \<lparr>startMs = Some 7, endMs = None\<rparr>],
          status = RUNNING\<rparr> \<and>
   list_all (\<lambda>c. clock c \<noteq> 0) [Run 1, Pause 4, Run 6, Run 7] \<and>
   Task_elapsed 10 \<lparr>task_id = 0, name = ''Task 0'',
          intervals = [\<lparr>startMs = Some 1, endMs = Some 4\<rparr>, \<lparr>startMs = Some 6, endMs = None\<rparr>,
                       \<lparr>startMs = Some 7, endMs = None\<rparr>],
          status = RUNNING\<rparr> = Some 10"
proof -
  have c: "list_all (\<lambda>c. clock c \<noteq> 0) [Run 1, Pause 4, Run 6, Run 7]" by simp
  show ?thesis
    using elapsed_after_calls [OF calls_example c, of 10] calls_example c
    by (simp add: closed_sum_def open_sum_def closed_def duration_def since_start_def)
qed

text \<open>
  The claim as the specification states it fails after two \<^verbatim>\<open>run()\<close> calls in a row,
  at the times 1 and 2: at the time 10 the source counts both open intervals, 9 + 8 = 17,
  and the specification's formula counts the last one only, 8.
\<close>

theorem elapsed_claimed_counterexample:
  "calls [Run 1, Run 2] (fst (Task_new 0)) =
     Inr \<lparr>task_id = 0, name = ''Task 0'',
          intervals = [\<lparr>startMs = Some 1, endMs = None\<rparr>, \<lparr>startMs = Some 2, endMs = None\<rparr>],
          status = RUNNING\<rparr> \<and>
   Task_elapsed 10 \<lparr>task_id = 0, name = ''Task 0'',
          intervals = [\<lparr>startMs = Some 1, endMs = None\<rparr>, \<lparr>startMs = Some 2, endMs = None\<rparr>],
          status = RUNNING\<rparr> = Some 17 \<and>
   claimed_elapsed 10 [\<lparr>startMs = Some 1, endMs = None\<rparr>, \<lparr>startMs = Some 2, endMs = None\<rparr>] = 8"
  by (simp add: Task_new_def Task_run_def Interval_new_def Interval_start_def
        js_String_def decimal.simps digit_char_def Task_elapsed_def Interval_elapsed_def
        claimed_elapsed_def closed_sum_def closed_def duration_def since_start_def)

text \<open>
  Why the clock readings are taken non-zero: a \<^verbatim>\<open>pause()\<close> at the reading \<open>0\<close> closes
  the interval with \<^verbatim>\<open>endMs = 0\<close>, which \<^verbatim>\<open>elapsed()\<close> then reads as open.
\<close>

lemma elapsed_paused_at_zero:
  "calls [Run (- 5), Pause 0] (fst (Task_new 0)) =
     Inr \<lparr>task_id = 0, name = ''Task 0'',
          intervals = [\<lparr>startMs = Some (- 5), endMs = Some 0\<rparr>], status = PAUSED\<rparr> \<and>
   Task_elapsed 10 \<lparr>task_id = 0, name = ''Task 0'',
          intervals = [\<lparr>startMs = Some (- 5), endMs = Some 0\<rparr>], status = PAUSED\<rparr> = Some 15 \<and>
   claimed_elapsed 10 [\<lparr>startMs = Some (- 5), endMs = Some 0\<rparr>] = 5"
  by (simp add: Task_new_def Task_run_def Task_pause_def Interval_new_def Interval_start_def
        Interval_stop_def js_String_def decimal.simps digit_char_def Task_elapsed_def
        Interval_elapsed_def claimed_elapsed_def closed_sum_def closed_def duration_def
        since_start_def)

section \<open>The invariant of toggle\<close>

lemma RUNNING_not_PAUSED: "RUNNING \<noteq> PAUSED"
  by (simp add: RUNNING_def PAUSED_def)

lemma update_last: "xs \<noteq> [] \<Longrightarrow> xs[length xs - 1 := x] = butlast xs @ [x]"
  by (induction xs) (auto split: nat.splits)

lemma Task_pause_last:
  "intervals t \<noteq> [] \<Longrightarrow>
     Task_pause now t =
       Inr (t\<lparr>intervals := butlast (intervals t) @ [Interval_stop now (last (intervals t))],
              status := PAUSED\<rparr>)"
  using update_last [of "intervals t"]
  by (simp add: Task_pause_def Let_def last_conv_nth)

lemma Task_toggle_inv:
  assumes "toggle_inv t"
  shows "\<exists>t'. Task_toggle now t = Inr t' \<and> toggle_inv t'"
proof (cases "status t = PAUSED")
  case True
  with assms have "list_all closed (intervals t)" by (simp add: toggle_inv_def)
  then have "toggle_inv (Task_run now t)"
    by (simp add: toggle_inv_def Task_run_def only_trailing_open_def trailing_open_def
          RUNNING_not_PAUSED closed_def Interval_start_def Interval_new_def)
  with True show ?thesis by (simp add: Task_toggle_def)
next
  case False
  with assms have r: "status t = RUNNING" and ne: "intervals t \<noteq> []"
    and bl: "list_all closed (butlast (intervals t))"
    by (simp_all add: toggle_inv_def trailing_open_def only_trailing_open_def)
  let ?t' = "t\<lparr>intervals := butlast (intervals t) @ [Interval_stop now (last (intervals t))],
              status := PAUSED\<rparr>"
  from False r ne have "Task_toggle now t = Inr ?t'"
    by (simp add: Task_toggle_def Task_pause_last)
  moreover from bl have "toggle_inv ?t'"
    by (simp add: toggle_inv_def only_trailing_open_def closed_def Interval_stop_def)
  ultimately show ?thesis by blast
qed

lemma toggles_inv:
  "toggle_inv t \<Longrightarrow> \<exists>t'. toggles nows t = Inr t' \<and> toggle_inv t'"
proof (induction nows arbitrary: t)
  case Nil
  then show ?case by simp
next
  case (Cons now nows)
  from Task_toggle_inv [OF Cons.prems, of now]
  obtain t1 where t1: "Task_toggle now t = Inr t1" and inv1: "toggle_inv t1" by blast
  from Cons.IH [OF inv1] t1 show ?case by simp
qed

lemma Task_new_inv: "toggle_inv (fst (Task_new g))"
  by (simp add: toggle_inv_def Task_new_def only_trailing_open_def)

lemma toggles_example:
  "toggles [10, 25, 40] (fst (Task_new 7)) =
     Inr \<lparr>task_id = 7, name = ''Task 7'',
          intervals = [\<lparr>startMs = Some 10, endMs = Some 25\<rparr>, \<lparr>startMs = Some 40, endMs = None\<rparr>],
          status = RUNNING\<rparr>"
  by (simp add: Task_new_def Task_toggle_def Task_run_def Task_pause_def Interval_new_def
        Interval_start_def Interval_stop_def js_String_def decimal.simps digit_char_def
        RUNNING_def PAUSED_def)

text \<open>
  C4. Every sequence of \<^verbatim>\<open>toggle()\<close> calls on a freshly constructed Task, at any clock
  readings, runs without throwing and ends in a Task in which no interval but the last
  lacks \<^verbatim>\<open>endMs\<close>, in which the last interval is open only if the status is RUNNING,
  and in which every interval is closed if the status is PAUSED; the status is one of the
  two.
\<close>

theorem toggles_keep_invariant:
  "\<exists>t. toggles nows (fst (Task_new g)) = Inr t \<and>
       only_trailing_open t \<and>
       (trailing_open t \<longrightarrow> status t = RUNNING) \<and>
       (status t = PAUSED \<longrightarrow> list_all closed (intervals t)) \<and>
       (status t = PAUSED \<or> status t = RUNNING)"
proof -
  from toggles_inv [OF Task_new_inv, of nows g]
  obtain t where t: "toggles nows (fst (Task_new g)) = Inr t" and inv: "toggle_inv t" by blast
  from inv have "only_trailing_open t"
    and "trailing_open t \<longrightarrow> status t = RUNNING"
    and "status t = PAUSED \<longrightarrow> list_all closed (intervals t)"
    and "status t = PAUSED \<or> status t = RUNNING"
    by (auto simp: toggle_inv_def trailing_open_def last_in_set list_all_iff split: if_splits)
  with t show ?thesis by blast
qed

theorem toggles_keep_invariant_witness:
  "\<exists>t. toggles [10, 25, 40] (fst (Task_new 7)) = Inr t \<and> only_trailing_open t \<and>
       trailing_open t \<and> status t = RUNNING \<and>
       intervals t = [\<lparr>startMs = Some 10, endMs = Some 25\<rparr>, \<lparr>startMs = Some 40, endMs = None\<rparr>]"
  using toggles_keep_invariant [of "[10, 25, 40]" 7] toggles_example
  by (auto simp: trailing_open_def closed_def)

section \<open>Formatting\<close>

text \<open>
  C5. For every non-negative duration in milliseconds, \<^verbatim>\<open>formatDuration\<close> returns the
  hours (the whole seconds divided by 60 twice) in decimal without padding, a colon, the
  minutes modulo 60 as two digits, a colon, and the seconds modulo 60 as two digits; from
  one hour on the text does not start with a zero. It returns \<open>0:00:00\<close> for 0,
  \<open>0:01:01\<close> for 61000 and \<open>1:01:01\<close> for 3661000.
\<close>

theorem formatDuration_H_MM_SS:
  "0 \<le> d \<Longrightarrow>
     formatDuration d = H_MM_SS (nat d) \<and>
     (3600000 \<le> d \<longrightarrow> hd (formatDuration d) \<noteq> CHR ''0'') \<and>
     formatDuration 0 = ''0:00:00'' \<and>
     formatDuration 61000 = ''0:01:01'' \<and>
     formatDuration 3661000 = ''1:01:01''"
proof -
  assume d: "0 \<le> d"
  then have eq: "formatDuration d = H_MM_SS (nat d)" by (rule formatDuration_nonneg)
  have "3600000 \<le> d \<Longrightarrow> hd (formatDuration d) \<noteq> CHR ''0''"
    unfolding eq by (rule H_MM_SS_unpadded) simp
  with eq formatDuration_examples show ?thesis by blast
qed

theorem formatDuration_H_MM_SS_witness:
  "(0::int) \<le> 86399000 \<and> H_MM_SS (nat 86399000) = ''23:59:59'' \<and>
   hd (formatDuration 86399000) \<noteq> CHR ''0''"
proof -
  have d: "(0::int) \<le> 86399000" by simp
  have big: "(3600000::int) \<le> 86399000" by simp
  from formatDuration_H_MM_SS [OF d]
  have eq: "formatDuration 86399000 = H_MM_SS (nat 86399000)"
    by (rule conjunct1)
  from formatDuration_H_MM_SS [OF d] big
  have unpadded: "hd (formatDuration 86399000) \<noteq> CHR ''0''"
    by blast
  have "H_MM_SS (nat 86399000) = ''23:59:59''"
    by (rule trans [OF eq [symmetric] formatDuration_day])
  with d unpadded show ?thesis by blast
qed

section \<open>Loading the stored document\<close>


lemma deserialize_null_task:
  "Model_deserialize (JObj [(''tasks'', JArr [JNull])]) m st = Inl TypeError"
  by (simp add: Model_deserialize_def read_SerializedTask_def)

lemma deserialize_task_without_intervals:
  "Model_deserialize (JObj [(''tasks'', JArr [JObj []])]) m st = Inl TypeError"
  by (simp add: Model_deserialize_def read_SerializedTask_def)

lemma deserialize_untyped_task:
  "Model_deserialize (JObj [(''tasks'', JArr [JObj [(''intervals'', JArr [])]])]) m st = Inr None"
  by (simp add: Model_deserialize_def read_SerializedTask_def)




section \<open>Toggling twice\<close>

text \<open>
  C7. For every Task in the PAUSED state, two \<^verbatim>\<open>toggle()\<close> calls run
  without throwing and add exactly one interval, leaving the others and the status as they
  were; that interval is closed, its \<^verbatim>\<open>startMs\<close> is the clock reading of the first
  call and its \<^verbatim>\<open>endMs\<close> that of the second, so that \<open>endMs - startMs\<close> is the
  difference of the two readings: positive exactly when the clock advanced in between.
\<close>

theorem toggle_twice:
  "status t = PAUSED \<Longrightarrow>
     toggles [t1, t2] t =
       Inr (t\<lparr>intervals := intervals t @ [\<lparr>startMs = Some t1, endMs = Some t2\<rparr>]\<rparr>) \<and>
     closed \<lparr>startMs = Some t1, endMs = Some t2\<rparr> \<and>
     duration \<lparr>startMs = Some t1, endMs = Some t2\<rparr> = t2 - t1"
  by (simp add: Task_toggle_def Task_run_def Task_pause_def Interval_new_def
        Interval_start_def Interval_stop_def RUNNING_not_PAUSED closed_def duration_def)

theorem toggle_twice_witness:
  "status \<lparr>task_id = 3, name = ''Task 3'', intervals = [], status = PAUSED\<rparr> = PAUSED \<and>
   toggles [100, 1600] \<lparr>task_id = 3, name = ''Task 3'', intervals = [], status = PAUSED\<rparr> =
     Inr \<lparr>task_id = 3, name = ''Task 3'',
          intervals = [\<lparr>startMs = Some 100, endMs = Some 1600\<rparr>], status = PAUSED\<rparr> \<and>
   duration \<lparr>startMs = Some 100, endMs = Some 1600\<rparr> = 1500"
  using toggle_twice
    [of "\<lparr>task_id = 3, name = ''Task 3'', intervals = [], status = PAUSED\<rparr>" 100 1600]
  by simp

text \<open>
  The claim as the specification states it fails when both calls read the same
  millisecond: the interval is closed with \<^verbatim>\<open>endMs\<close> equal to \<^verbatim>\<open>startMs\<close>.
\<close>

theorem toggle_twice_same_millisecond:
  "status \<lparr>task_id = 0, name = ''Task 0'', intervals = [], status = PAUSED\<rparr> = PAUSED \<and>
   toggles [5, 5] \<lparr>task_id = 0, name = ''Task 0'', intervals = [], status = PAUSED\<rparr> =
     Inr \<lparr>task_id = 0, name = ''Task 0'',
          intervals = [\<lparr>startMs = Some 5, endMs = Some 5\<rparr>], status = PAUSED\<rparr> \<and>
   duration \<lparr>startMs = Some 5, endMs = Some 5\<rparr> = 0"
  by (simp add: Task_toggle_def Task_run_def Task_pause_def Interval_new_def
        Interval_start_def Interval_stop_def RUNNING_not_PAUSED duration_def)

section \<open>Deleting a task\<close>

lemma indexOf_absent: "x \<notin> set xs \<Longrightarrow> indexOf xs x = - 1"
  by (induction xs) auto

lemma indexOf_present:
  "x \<in> set xs \<Longrightarrow>
     \<exists>pre post. xs = pre @ x # post \<and> x \<notin> set pre \<and> indexOf xs x = int (length pre)"
proof (induction xs)
  case Nil
  then show ?case by simp
next
  case (Cons y ys)
  show ?case
  proof (cases "y = x")
    case True
    then have "y # ys = [] @ x # ys \<and> x \<notin> set [] \<and>
        indexOf (y # ys) x = int (length ([]::'a list))"
      by simp
    then show ?thesis by blast
  next
    case False
    with Cons.prems have "x \<in> set ys" by simp
    from Cons.IH [OF this] obtain pre post
      where ys: "ys = pre @ x # post" and pre: "x \<notin> set pre"
        and k: "indexOf ys x = int (length pre)" by blast
    from False ys pre k
    have "y # ys = (y # pre) @ x # post \<and> x \<notin> set (y # pre) \<and>
          indexOf (y # ys) x = int (length (y # pre))"
      by (simp add: Let_def)
    then show ?thesis by blast
  qed
qed

lemma splice_one_at: "splice (pre @ x # post) (int (length pre)) 1 = pre @ post"
  by (simp add: splice_def Let_def nat_add_distrib)

lemma splice_minus_one: "splice xs (- 1) 1 = butlast xs"
proof (cases "xs = []")
  case True
  then show ?thesis by (simp add: splice_def)
next
  case False
  then have "max (int (length xs) + - 1) 0 = int (length xs) - 1" by (cases xs) simp_all
  with False show ?thesis
    by (simp add: splice_def Let_def butlast_conv_take nat_diff_distrib')
qed

text \<open>
  C8. When the Model's collection contains the task, the listener removes exactly one
  entry, the first that is this task: the entries before it and after it stay, in their
  order. In a collection without repetitions the tasks that remain are all the others.
\<close>

theorem delete_present:
  assumes "task \<in> set (tasks m)"
  shows "\<exists>pre post. tasks m = pre @ task # post \<and> task \<notin> set pre \<and>
           tasks (Model_delete_task m task) = pre @ post \<and>
           (distinct (tasks m) \<longrightarrow>
              set (tasks (Model_delete_task m task)) = set (tasks m) - {task})"
proof -
  from indexOf_present [OF assms] obtain pre post
    where xs: "tasks m = pre @ task # post" and pre: "task \<notin> set pre"
      and k: "indexOf (tasks m) task = int (length pre)" by blast
  have del: "tasks (Model_delete_task m task) = pre @ post"
    unfolding Model_delete_task_def k using xs by (simp add: splice_one_at)
  have "distinct (tasks m) \<Longrightarrow> set (pre @ post) = set (tasks m) - {task}"
    using xs by auto
  with xs pre del show ?thesis by auto
qed

theorem delete_present_witness:
  "(2::nat) \<in> set (tasks \<lparr>tasks = [4, 2, 7, 5]\<rparr>) \<and>
   tasks (Model_delete_task \<lparr>tasks = [4, 2, 7, 5]\<rparr> 2) = [4, 7, 5]"
  using delete_present [of 2 "\<lparr>tasks = [4, 2, 7, 5]\<rparr>"]
  by (simp add: Model_delete_task_def splice_def)

text \<open>
  C9. When the Model's non-empty collection does not contain the task,
  \<^verbatim>\<open>indexOf\<close> returns \<open>-1\<close> and the listener removes the last entry of the collection:
  what remains is the collection without its last entry.
\<close>

theorem delete_absent:
  assumes "tasks m \<noteq> []" and "task \<notin> set (tasks m)"
  shows "indexOf (tasks m) task = - 1 \<and>
         tasks (Model_delete_task m task) = butlast (tasks m) \<and>
         tasks m = tasks (Model_delete_task m task) @ [last (tasks m)]"
  using assms by (simp add: Model_delete_task_def indexOf_absent splice_minus_one)

theorem delete_absent_witness:
  "tasks \<lparr>tasks = [4, 2, 7]\<rparr> \<noteq> [] \<and> (9::nat) \<notin> set (tasks \<lparr>tasks = [4, 2, 7]\<rparr>) \<and>
   tasks (Model_delete_task \<lparr>tasks = [4, 2, 7]\<rparr> 9) = [4, 2]"
proof -
  have ne: "tasks \<lparr>tasks = [4, 2, 7]\<rparr> \<noteq> []" by simp
  have absent: "(9::nat) \<notin> set (tasks \<lparr>tasks = [4, 2, 7]\<rparr>)" by simp
  from delete_absent [OF ne absent]
  have "tasks (Model_delete_task \<lparr>tasks = [4, 2, 7]\<rparr> 9) = butlast (tasks \<lparr>tasks = [4, 2, 7]\<rparr>)"
    by blast
  with ne absent show ?thesis by simp
qed

section \<open>An interval that ended at the epoch\<close>

text \<open>
  C10. For every Interval whose \<^verbatim>\<open>endMs\<close> is the number \<open>0\<close>, \<^verbatim>\<open>elapsed()\<close>
  returns the current time minus \<^verbatim>\<open>startMs\<close>, which is what it returns for the same
  interval with \<^verbatim>\<open>endMs\<close> unset.
\<close>

theorem elapsed_endMs_zero:
  "endMs i = Some 0 \<Longrightarrow>
     Interval_elapsed now i = (case startMs i of None \<Rightarrow> None | Some s \<Rightarrow> Some (now - s)) \<and>
     Interval_elapsed now i = Interval_elapsed now (i\<lparr>endMs := None\<rparr>)"
  by (simp add: Interval_elapsed_def)

theorem elapsed_endMs_zero_witness:
  "endMs \<lparr>startMs = Some 1000, endMs = Some 0\<rparr> = Some 0 \<and>
   Interval_elapsed 5000 \<lparr>startMs = Some 1000, endMs = Some 0\<rparr> = Some 4000"
  using elapsed_endMs_zero [of "\<lparr>startMs = Some 1000, endMs = Some 0\<rparr>" 5000]
  by simp

end
